theory Spec2Isabelle
  imports Main "HOL-Library.AList" "HOL-Library.Word"
begin

section \<open>The CRUD controllers of workout\_api\<close>

text \<open>
  The two controller modules, \<^verbatim>\<open>categorias/controller.py\<close> and
  \<^verbatim>\<open>centro_treinamento/controller.py\<close>, are the same text up to the names of
  the entity, of its schema classes and of its routes. The operations are therefore
  embedded once, over one row type; each definition names the endpoint function of
  both modules that it embeds.

  The database session is made explicit: every operation takes the rows of the
  entity's table, in the order in which the database returns them, and returns its
  outcome together with the rows after the call.
\<close>

subsection \<open>Data\<close>

type_synonym uuid = "128 word"

text \<open>
  Modelled from the spec: the schema classes \<^verbatim>\<open>CategoriaIn\<close>,
  \<^verbatim>\<open>CategoriaOut\<close>, \<^verbatim>\<open>CentroTreinamentoIn\<close>,
  \<^verbatim>\<open>CentroTreinamentoOut\<close> and the ORM models are imported by the controllers
  but are not part of the sources. The spec gives an entity the identity \<open>id\<close>,
  the attribute \<open>nome\<close> and further descriptive attributes; the input schema has
  \<open>nome\<close> (the controllers read \<^verbatim>\<open>categoria_in.nome\<close>) and no \<open>id\<close>
  (the controllers build the output as
  \<^verbatim>\<open>CategoriaOut(id=uuid4(), **categoria_in.model_dump())\<close>, a call that
  Python rejects when the dump has a key \<open>id\<close> too). The descriptive attributes are
  kept as an association list from column name to value.
\<close>

record schema_in =
  nome :: string
  extra :: "(string \<times> string) list"

record row = schema_in +
  id_uuid :: uuid

text \<open>
  The fields of the input schema, which are the keys a dumped payload can have:
  \<open>nome\<close>, and the descriptive attributes by their column names.
\<close>

datatype field = Nome | Extra string

text \<open>
  The result of \<^verbatim>\<open>model_dump(exclude_unset=True)\<close>: the fields that the request
  body has set, each with its value, in the order of \<^verbatim>\<open>items()\<close>.
\<close>

type_synonym payload = "(field \<times> string) list"

datatype error = Conflict | NotFound | InternalError | IntegrityError | TypeError

text \<open>
  \<open>Conflict\<close>, \<open>NotFound\<close> and \<open>InternalError\<close> are the
  \<^verbatim>\<open>HTTPException\<close>s the controllers raise with status 409, 404 and 500.
  \<open>IntegrityError\<close> is the exception of \<^verbatim>\<open>db_session.commit()\<close> where the
  controller has no handler around it, and \<open>TypeError\<close> the exception of a library
  call on an argument it cannot use; both leave the endpoint uncaught.
\<close>

text \<open>
  Modelled from the spec: the table declaration (the ORM model) is not part of the
  sources. The spec lays the table out with \<open>id\<close> as primary key and \<open>nome\<close> as
  unique column, and requires the uniqueness of \<open>nome\<close> to be a constraint of the
  table, independent of the service: the table of the spec has both flags set. The
  declaration is an argument of every writing operation, so that a theorem says
  which of the two constraints it rests on, and holds for every declaration where it
  rests on none.
\<close>

record table_decl =
  id_unique :: bool
  nome_unique :: bool

text \<open>The page object of the pagination library: \<^verbatim>\<open>items\<close>, \<^verbatim>\<open>total\<close>, \<^verbatim>\<open>page\<close>, \<^verbatim>\<open>size\<close>.\<close>

record 'a page =
  items :: "'a list"
  total_items :: nat
  page_no :: nat
  page_size :: nat

subsection \<open>The session\<close>

text \<open>\<^verbatim>\<open>select(Model).filter_by(nome=...)\<close> and \<^verbatim>\<open>filter_by(id=...)\<close>.\<close>

definition filter_by_nome :: "string \<Rightarrow> row list \<Rightarrow> row list" where
  "filter_by_nome n s = filter (\<lambda>r. nome r = n) s"

definition filter_by_id :: "uuid \<Rightarrow> row list \<Rightarrow> row list" where
  "filter_by_id i s = filter (\<lambda>r. id_uuid r = i) s"

text \<open>
  What \<^verbatim>\<open>await db_session.execute(select(Model))\<close> returns: a result object over
  the selected rows. It is no sequence; \<^verbatim>\<open>.scalars().all()\<close> and
  \<^verbatim>\<open>.scalars().first()\<close> read the rows out of it.
\<close>

datatype result = Result "row list"

text \<open>\<^verbatim>\<open>.scalars().first()\<close>: the first row of the result, or \<^verbatim>\<open>None\<close>.\<close>

definition first :: "row list \<Rightarrow> row option" where
  "first rs = (case rs of [] \<Rightarrow> None | r # _ \<Rightarrow> Some r)"

text \<open>
  \<^verbatim>\<open>setattr(categoria, key, value)\<close> on a row object. Assigning a descriptive
  attribute replaces its value (or adds the attribute, as Python does on an object
  that lacks it).
\<close>

fun setattr :: "row \<Rightarrow> field \<Rightarrow> string \<Rightarrow> row" where
  "setattr obj Nome v = obj\<lparr>nome := v\<rparr>"
| "setattr obj (Extra k) v = obj\<lparr>extra := AList.update k v (extra obj)\<rparr>"

text \<open>
  The loop \<^verbatim>\<open>for key, value in categoria_update.items(): setattr(categoria, key, value)\<close>.
\<close>

definition apply_update :: "payload \<Rightarrow> row \<Rightarrow> row" where
  "apply_update categoria_update categoria =
     fold (\<lambda>(key, v) obj. setattr obj key v) categoria_update categoria"

text \<open>
  The row object that \<open>first\<close> returned is the one the session tracks: its mutation
  is written at its own position, \<^verbatim>\<open>db_session.delete\<close> removes it from there.
\<close>

fun write_row :: "row \<Rightarrow> row \<Rightarrow> row list \<Rightarrow> row list" where
  "write_row old new [] = []"
| "write_row old new (r # rs) = (if r = old then new # rs else r # write_row old new rs)"

definition delete_row :: "row \<Rightarrow> row list \<Rightarrow> row list" where
  "delete_row old s = remove1 old s"

text \<open>
  What \<^verbatim>\<open>db_session.commit()\<close> raises on. An \<^verbatim>\<open>INSERT\<close> is rejected when a
  declared unique column of the new row repeats a stored value; an
  \<^verbatim>\<open>UPDATE\<close> is rejected when it changes \<open>nome\<close> to the value of another row
  under a declared unique \<open>nome\<close> (no update assigns \<open>id\<close>). A \<^verbatim>\<open>DELETE\<close> is
  never rejected. A rejected commit leaves the table as it was.
\<close>

definition insert_rejected :: "table_decl \<Rightarrow> row list \<Rightarrow> row \<Rightarrow> bool" where
  "insert_rejected T s new \<longleftrightarrow>
     (nome_unique T \<and> nome new \<in> set (map nome s)) \<or>
     (id_unique T \<and> id_uuid new \<in> set (map id_uuid s))"

definition update_rejected :: "table_decl \<Rightarrow> row list \<Rightarrow> row \<Rightarrow> row \<Rightarrow> bool" where
  "update_rejected T s old new \<longleftrightarrow>
     nome_unique T \<and> nome new \<noteq> nome old \<and> nome new \<in> set (map nome s)"

subsection \<open>The endpoints\<close>

text \<open>
  \<^verbatim>\<open>post\<close> (both modules). The argument \<open>u\<close> is the value that
  \<^verbatim>\<open>uuid4()\<close> returns in this call. Everything between the name check and the
  \<^verbatim>\<open>return\<close> is inside \<^verbatim>\<open>try\<close>, so a rejected commit becomes the 500 error.
\<close>

definition post :: "table_decl \<Rightarrow> row list \<Rightarrow> uuid \<Rightarrow> schema_in \<Rightarrow> (error + row) \<times> row list" where
  "post T s u categoria_in =
     (case first (filter_by_nome (nome categoria_in) s) of
        Some categoria_existente \<Rightarrow> (Inl Conflict, s)
      | None \<Rightarrow>
          (let categoria_out =
                 \<lparr>nome = nome categoria_in, extra = extra categoria_in, id_uuid = u\<rparr>
           in if insert_rejected T s categoria_out then (Inl InternalError, s)
              else (Inr categoria_out, s @ [categoria_out])))"

text \<open>\<^verbatim>\<open>query\<close> on route \<^verbatim>\<open>'/'\<close> (both modules): the whole table, or 404.\<close>

definition query :: "row list \<Rightarrow> (error + row list) \<times> row list" where
  "query s = (let categorias = s in
     if categorias = [] then (Inl NotFound, s) else (Inr categorias, s))"

text \<open>\<^verbatim>\<open>get\<close> (both modules).\<close>

definition get :: "row list \<Rightarrow> uuid \<Rightarrow> (error + row) \<times> row list" where
  "get s i =
     (case first (filter_by_id i s) of
        None \<Rightarrow> (Inl NotFound, s)
      | Some categoria \<Rightarrow> (Inr categoria, s))"

text \<open>\<^verbatim>\<open>get_by_nome\<close> (categorias), \<^verbatim>\<open>get_by_name\<close> (centro\_treinamento).\<close>

definition get_by_nome :: "row list \<Rightarrow> string \<Rightarrow> (error + row) \<times> row list" where
  "get_by_nome s n =
     (case first (filter_by_nome n s) of
        None \<Rightarrow> (Inl NotFound, s)
      | Some categoria \<Rightarrow> (Inr categoria, s))"

text \<open>
  The paginated \<^verbatim>\<open>query\<close> (both modules). Its body selects the whole table and
  returns \<^verbatim>\<open>paginate(categorias)\<close>, where \<^verbatim>\<open>categorias\<close> is the result
  object itself: unlike the other \<^verbatim>\<open>query\<close>, it does not read the rows out of
  it. The parameters \<^verbatim>\<open>limit\<close> and \<^verbatim>\<open>offset\<close> are declared and occur nowhere
  in the body. \<^verbatim>\<open>paginate\<close> belongs to the library \<^verbatim>\<open>fastapi_pagination\<close>
  and is taken as a parameter: the page it returns for the object it is given, or the
  exception it raises, which the endpoint does not catch. The library's function
  takes the length of its argument, which a result object does not have; it raises
  \<open>TypeError\<close> on one.
\<close>

definition query_paginated ::
    "(result \<Rightarrow> error + row page) \<Rightarrow> row list \<Rightarrow> int \<Rightarrow> int \<Rightarrow> (error + row page) \<times> row list" where
  "query_paginated paginate s limit offset =
     (let categorias = Result s in (paginate categorias, s))"

text \<open>
  \<^verbatim>\<open>patch\<close> (both modules). The assignments are made on the row object that
  the lookup returned; \<^verbatim>\<open>commit\<close> writes it, or raises with nothing written;
  \<^verbatim>\<open>refresh\<close> reads the written row back, which is the row returned.
\<close>

definition patch ::
    "table_decl \<Rightarrow> row list \<Rightarrow> uuid \<Rightarrow> payload \<Rightarrow> (error + row) \<times> row list" where
  "patch T s i categoria_update =
     (case first (filter_by_id i s) of
        None \<Rightarrow> (Inl NotFound, s)
      | Some categoria \<Rightarrow>
          (let updated = apply_update categoria_update categoria
           in if update_rejected T s categoria updated then (Inl IntegrityError, s)
              else (Inr updated, write_row categoria updated s)))"

text \<open>\<^verbatim>\<open>patch_by_nome\<close> (categorias), \<^verbatim>\<open>patch_by_name\<close> (centro\_treinamento).\<close>

definition patch_by_nome ::
    "table_decl \<Rightarrow> row list \<Rightarrow> string \<Rightarrow> payload \<Rightarrow> (error + row) \<times> row list" where
  "patch_by_nome T s n categoria_update =
     (case first (filter_by_nome n s) of
        None \<Rightarrow> (Inl NotFound, s)
      | Some categoria \<Rightarrow>
          (let updated = apply_update categoria_update categoria
           in if update_rejected T s categoria updated then (Inl IntegrityError, s)
              else (Inr updated, write_row categoria updated s)))"

text \<open>\<^verbatim>\<open>delete\<close> (both modules).\<close>

definition delete :: "row list \<Rightarrow> uuid \<Rightarrow> (error + unit) \<times> row list" where
  "delete s i =
     (case first (filter_by_id i s) of
        None \<Rightarrow> (Inl NotFound, s)
      | Some categoria \<Rightarrow> (Inr (), delete_row categoria s))"

text \<open>\<^verbatim>\<open>delete_by_nome\<close> (categorias), \<^verbatim>\<open>delete_by_name\<close> (centro\_treinamento).\<close>

definition delete_by_nome :: "row list \<Rightarrow> string \<Rightarrow> (error + unit) \<times> row list" where
  "delete_by_nome s n =
     (case first (filter_by_nome n s) of
        None \<Rightarrow> (Inl NotFound, s)
      | Some categoria \<Rightarrow> (Inr (), delete_row categoria s))"

text \<open>Reading an attribute of a row object, by the name of its field.\<close>

fun getattr :: "row \<Rightarrow> field \<Rightarrow> string option" where
  "getattr obj Nome = Some (nome obj)"
| "getattr obj (Extra k) = map_of (extra obj) k"

subsection \<open>The router\<close>

text \<open>
  One request of the service: the route decorators send it to its endpoint. The
  response bodies are a row, a list of rows, a page, or nothing (status 204).
\<close>

datatype op =
    Create uuid schema_in
  | ListAll
  | GetById uuid
  | GetByName string
  | ListPage int int
  | UpdateById uuid payload
  | UpdateByName string payload
  | DeleteById uuid
  | DeleteByName string

datatype resp = One row | Many "row list" | Paged "row page" | NoContent

fun run ::
    "(result \<Rightarrow> error + row page) \<Rightarrow> table_decl \<Rightarrow> row list \<Rightarrow> op \<Rightarrow> (error + resp) \<times> row list" where
  "run paginate T s (Create u categoria_in) =
     (case post T s u categoria_in of (res, s') \<Rightarrow> (map_sum (\<lambda>e. e) One res, s'))"
| "run paginate T s ListAll =
     (case query s of (res, s') \<Rightarrow> (map_sum (\<lambda>e. e) Many res, s'))"
| "run paginate T s (GetById i) =
     (case get s i of (res, s') \<Rightarrow> (map_sum (\<lambda>e. e) One res, s'))"
| "run paginate T s (GetByName n) =
     (case get_by_nome s n of (res, s') \<Rightarrow> (map_sum (\<lambda>e. e) One res, s'))"
| "run paginate T s (ListPage limit offset) =
     (case query_paginated paginate s limit offset of (res, s') \<Rightarrow> (map_sum (\<lambda>e. e) Paged res, s'))"
| "run paginate T s (UpdateById i categoria_update) =
     (case patch T s i categoria_update of (res, s') \<Rightarrow> (map_sum (\<lambda>e. e) One res, s'))"
| "run paginate T s (UpdateByName n categoria_update) =
     (case patch_by_nome T s n categoria_update of (res, s') \<Rightarrow> (map_sum (\<lambda>e. e) One res, s'))"
| "run paginate T s (DeleteById i) =
     (case delete s i of (res, s') \<Rightarrow> (map_sum (\<lambda>e. e) (\<lambda>_. NoContent) res, s'))"
| "run paginate T s (DeleteByName n) =
     (case delete_by_nome s n of (res, s') \<Rightarrow> (map_sum (\<lambda>e. e) (\<lambda>_. NoContent) res, s'))"

section \<open>Lookups\<close>

lemma first_filter_find: "first (filter P s) = find P s"
  by (induction s) (simp_all add: first_def)

lemma first_by_nome: "first (filter_by_nome n s) = find (\<lambda>r. nome r = n) s"
  by (simp add: filter_by_nome_def first_filter_find)

lemma first_by_id: "first (filter_by_id i s) = find (\<lambda>r. id_uuid r = i) s"
  by (simp add: filter_by_id_def first_filter_find)

section \<open>Listing everything\<close>

text \<open>
  Claim C6. \<open>query\<close> on the whole table fails with \<open>NotFound\<close> exactly when the
  table holds no row; otherwise it returns every stored row, in the table's order.
  It never changes the table.
\<close>

theorem query_all_or_not_found:
  "(fst (query s) = Inl NotFound \<longleftrightarrow> s = []) \<and>
   (s \<noteq> [] \<longrightarrow> fst (query s) = Inr s) \<and>
   snd (query s) = s"
  by (simp add: query_def)

theorem query_all_or_not_found_witness:
  "(fst (query [\<lparr>nome = ''Cardio'', extra = [], id_uuid = 1\<rparr>]) = Inl NotFound
      \<longleftrightarrow> [\<lparr>nome = ''Cardio'', extra = [], id_uuid = 1\<rparr>] = []) \<and>
   fst (query [\<lparr>nome = ''Cardio'', extra = [], id_uuid = 1\<rparr>])
      = Inr [\<lparr>nome = ''Cardio'', extra = [], id_uuid = 1\<rparr>] \<and>
   fst (query []) = Inl NotFound"
  using query_all_or_not_found [of "[\<lparr>nome = ''Cardio'', extra = [], id_uuid = 1\<rparr>]"]
    query_all_or_not_found [of "[]"]
  by simp

lemma find_by_nome_None: "find (\<lambda>r. nome r = n) s = None \<longleftrightarrow> n \<notin> set (map nome s)"
  by (auto simp: find_None_iff)

lemma find_by_id_None: "find (\<lambda>r. id_uuid r = i) s = None \<longleftrightarrow> i \<notin> set (map id_uuid s)"
  by (auto simp: find_None_iff)


section \<open>Create\<close>

text \<open>
  Claim C4. When a stored row has exactly the \<open>nome\<close> of the input (equality of
  strings, so case matters), \<open>post\<close> fails with \<open>Conflict\<close> and the table is
  what it was. Otherwise, with a new UUID (one that no stored row carries), it
  returns the output representation, which is the input's fields under that UUID,
  and the table is the old one followed by that row.
\<close>

theorem post_conflict_or_created:
  "(nome categoria_in \<in> set (map nome s) \<longrightarrow>
      post T s u categoria_in = (Inl Conflict, s)) \<and>
   (nome categoria_in \<notin> set (map nome s) \<and> u \<notin> set (map id_uuid s) \<longrightarrow>
      post T s u categoria_in =
        (Inr \<lparr>nome = nome categoria_in, extra = extra categoria_in, id_uuid = u\<rparr>,
         s @ [\<lparr>nome = nome categoria_in, extra = extra categoria_in, id_uuid = u\<rparr>]))"
proof (cases "find (\<lambda>r. nome r = nome categoria_in) s")
  case None
  then have "nome categoria_in \<notin> set (map nome s)"
    by (simp add: find_by_nome_None)
  with None show ?thesis
    by (simp add: post_def first_by_nome insert_rejected_def Let_def)
next
  case (Some r)
  then have "nome categoria_in \<in> set (map nome s)"
    using find_by_nome_None [of "nome categoria_in" s] by simp
  with Some show ?thesis
    by (simp add: post_def first_by_nome)
qed

theorem post_conflict_or_created_witness:
  "post \<lparr>id_unique = True, nome_unique = True\<rparr>
        [\<lparr>nome = ''Cardio'', extra = [], id_uuid = 1\<rparr>] 2 \<lparr>nome = ''Cardio'', extra = []\<rparr>
     = (Inl Conflict, [\<lparr>nome = ''Cardio'', extra = [], id_uuid = 1\<rparr>]) \<and>
   post \<lparr>id_unique = True, nome_unique = True\<rparr>
        [\<lparr>nome = ''Cardio'', extra = [], id_uuid = 1\<rparr>] 2 \<lparr>nome = ''cardio'', extra = []\<rparr>
     = (Inr \<lparr>nome = ''cardio'', extra = [], id_uuid = 2\<rparr>,
        [\<lparr>nome = ''Cardio'', extra = [], id_uuid = 1\<rparr>,
         \<lparr>nome = ''cardio'', extra = [], id_uuid = 2\<rparr>])"
  using post_conflict_or_created [of "\<lparr>nome = ''Cardio'', extra = []\<rparr>"
      "[\<lparr>nome = ''Cardio'', extra = [], id_uuid = 1\<rparr>]"
      "\<lparr>id_unique = True, nome_unique = True\<rparr>" 2]
    post_conflict_or_created [of "\<lparr>nome = ''cardio'', extra = []\<rparr>"
      "[\<lparr>nome = ''Cardio'', extra = [], id_uuid = 1\<rparr>]"
      "\<lparr>id_unique = True, nome_unique = True\<rparr>" 2]
  by simp




section \<open>Delete\<close>

lemma find_remove1_distinct:
  "distinct (map f s) \<Longrightarrow> find (\<lambda>r. f r = k) s = Some x \<Longrightarrow>
     find (\<lambda>r. f r = k) (remove1 x s) = None"
proof (induction s)
  case Nil
  then show ?case by simp
next
  case (Cons a s)
  show ?case
  proof (cases "f a = k")
    case True
    with Cons.prems have "x = a" and "k \<notin> f ` set s" by auto
    then show ?thesis by (auto simp: find_None_iff)
  next
    case False
    with Cons.prems have "find (\<lambda>r. f r = k) s = Some x" and "distinct (map f s)" by auto
    with Cons.IH have "find (\<lambda>r. f r = k) (remove1 x s) = None" by simp
    moreover from \<open>find (\<lambda>r. f r = k) s = Some x\<close> have "f x = k"
      by (auto simp: find_Some_iff)
    ultimately show ?thesis using False by auto
  qed
qed

text \<open>
  Claim C8. On a table whose rows have pairwise different ids: \<open>delete\<close> with
  the id of a stored row succeeds, and \<open>get\<close> with that id on the table it leaves
  fails with \<open>NotFound\<close>; \<open>delete\<close> with an id that no stored row has fails
  with \<open>NotFound\<close> itself.
\<close>

theorem delete_then_get_not_found:
  assumes "distinct (map id_uuid s)"
  shows "(i \<in> set (map id_uuid s) \<longrightarrow>
            fst (delete s i) = Inr () \<and> fst (get (snd (delete s i)) i) = Inl NotFound) \<and>
         (i \<notin> set (map id_uuid s) \<longrightarrow> delete s i = (Inl NotFound, s))"
proof (cases "find (\<lambda>r. id_uuid r = i) s")
  case None
  then have "i \<notin> set (map id_uuid s)" by (simp add: find_by_id_None)
  with None show ?thesis by (simp add: delete_def first_by_id)
next
  case (Some r)
  then have stored: "i \<in> set (map id_uuid s)"
    using find_by_id_None [of i s] by simp
  have "find (\<lambda>r. id_uuid r = i) (remove1 r s) = None"
    using assms Some by (rule find_remove1_distinct)
  with Some stored show ?thesis
    by (simp add: delete_def get_def first_by_id delete_row_def)
qed

theorem delete_then_get_not_found_witness:
  "distinct (map id_uuid [\<lparr>nome = ''Cardio'', extra = [], id_uuid = 1\<rparr>,
                           \<lparr>nome = ''Forca'', extra = [], id_uuid = 2\<rparr>]) \<and>
   fst (delete [\<lparr>nome = ''Cardio'', extra = [], id_uuid = 1\<rparr>,
                \<lparr>nome = ''Forca'', extra = [], id_uuid = 2\<rparr>] 1) = Inr () \<and>
   fst (get (snd (delete [\<lparr>nome = ''Cardio'', extra = [], id_uuid = 1\<rparr>,
                          \<lparr>nome = ''Forca'', extra = [], id_uuid = 2\<rparr>] 1)) 1) = Inl NotFound \<and>
   delete [\<lparr>nome = ''Cardio'', extra = [], id_uuid = 1\<rparr>,
           \<lparr>nome = ''Forca'', extra = [], id_uuid = 2\<rparr>] 3
     = (Inl NotFound, [\<lparr>nome = ''Cardio'', extra = [], id_uuid = 1\<rparr>,
                       \<lparr>nome = ''Forca'', extra = [], id_uuid = 2\<rparr>])"
proof -
  let ?s = "[\<lparr>nome = ''Cardio'', extra = [], id_uuid = 1\<rparr>,
             \<lparr>nome = ''Forca'', extra = [], id_uuid = 2\<rparr>]"
  have d: "distinct (map id_uuid ?s)" by simp
  show ?thesis
    using d delete_then_get_not_found [OF d, of 1] delete_then_get_not_found [OF d, of 3]
    by simp
qed

section \<open>Update\<close>

lemma setattr_id [simp]: "id_uuid (setattr obj key v) = id_uuid obj"
  by (cases key) simp_all

lemma apply_update_id: "id_uuid (apply_update categoria_update obj) = id_uuid obj"
  unfolding apply_update_def
  by (induction categoria_update arbitrary: obj) (simp_all add: split_def)

lemma write_row_ids:
  "id_uuid new = id_uuid old \<Longrightarrow> map id_uuid (write_row old new s) = map id_uuid s"
  by (induction s) simp_all

text \<open>
  Claim C9. No update, by id or by name, changes the id of any stored row: whatever
  the payload and whatever the outcome, the ids of the table after \<open>patch\<close> and
  after \<open>patch_by_nome\<close> are, position by position, the ids before. The payload can
  only name fields of the input schema, which has no \<open>id\<close>, and \<open>setattr\<close> on
  those fields leaves \<open>id\<close> alone.
\<close>

theorem patch_keeps_ids:
  "map id_uuid (snd (patch T s i categoria_update)) = map id_uuid s \<and>
   map id_uuid (snd (patch_by_nome T s n categoria_update)) = map id_uuid s"
  by (simp add: patch_def patch_by_nome_def Let_def write_row_ids apply_update_id
      split: option.split)

theorem patch_keeps_ids_witness:
  "map id_uuid (snd (patch \<lparr>id_unique = True, nome_unique = False\<rparr>
       [\<lparr>nome = ''Cardio'', extra = [], id_uuid = 1\<rparr>,
        \<lparr>nome = ''Forca'', extra = [], id_uuid = 2\<rparr>] 2 [(Nome, ''Pernas'')])) = [1, 2] \<and>
   map id_uuid (snd (patch_by_nome \<lparr>id_unique = True, nome_unique = False\<rparr>
       [\<lparr>nome = ''Cardio'', extra = [], id_uuid = 1\<rparr>,
        \<lparr>nome = ''Forca'', extra = [], id_uuid = 2\<rparr>] ''Forca'' [(Nome, ''Pernas'')])) = [1, 2]"
  using patch_keeps_ids [of "\<lparr>id_unique = True, nome_unique = False\<rparr>"
      "[\<lparr>nome = ''Cardio'', extra = [], id_uuid = 1\<rparr>,
        \<lparr>nome = ''Forca'', extra = [], id_uuid = 2\<rparr>]" 2 "[(Nome, ''Pernas'')]" "''Forca''"]
  by simp

lemma getattr_setattr:
  "getattr (setattr obj key v) f = (if f = key then Some v else getattr obj f)"
  by (cases key; cases f) (simp_all add: update_conv')

lemma getattr_apply_update:
  "getattr (apply_update categoria_update obj) f =
     (case map_of (rev categoria_update) f of Some v \<Rightarrow> Some v | None \<Rightarrow> getattr obj f)"
proof (induction categoria_update arbitrary: obj)
  case Nil
  then show ?case by (simp add: apply_update_def)
next
  case (Cons kv categoria_update)
  obtain key v where kv: "kv = (key, v)" by (cases kv)
  have "apply_update (kv # categoria_update) obj
          = apply_update categoria_update (setattr obj key v)"
    by (simp add: apply_update_def kv)
  then show ?case
    using Cons.IH [of "setattr obj key v"]
    by (simp add: kv getattr_setattr map_add_def split: option.split)
qed

lemma nome_apply_update:
  "nome (apply_update categoria_update obj) =
     (case map_of (rev categoria_update) Nome of Some v \<Rightarrow> v | None \<Rightarrow> nome obj)"
  using getattr_apply_update [of categoria_update obj Nome]
  by (simp split: option.splits)

lemma find_holds: "find P s = Some x \<Longrightarrow> P x"
  by (induction s) (auto split: if_splits)

lemma find_write_row:
  "find (\<lambda>r. id_uuid r = i) s = Some old \<Longrightarrow> id_uuid new = id_uuid old \<Longrightarrow>
     find (\<lambda>r. id_uuid r = i) (write_row old new s) = Some new"
proof (induction s)
  case Nil
  then show ?case by simp
next
  case (Cons a s)
  from Cons.prems(1) have old: "id_uuid old = i"
    by (rule find_holds)
  show ?case
  proof (cases "id_uuid a = i")
    case True
    with Cons.prems old show ?thesis by simp
  next
    case False
    with old have "a \<noteq> old" by auto
    with False Cons old show ?thesis by simp
  qed
qed

text \<open>
  Claim C5. For a stored row found by its id and a payload of some of the fields,
  when the store accepts the commit, \<open>patch\<close> returns the row in which each field
  of the payload has the payload's value (the last one, should the payload list
  repeat a key) and every other field, and the id, is what it was. That row takes
  the place of the old one in the table, where \<open>get\<close> finds it.
\<close>

theorem patch_is_partial_update:
  assumes "first (filter_by_id i s) = Some categoria"
    and "\<not> update_rejected T s categoria (apply_update categoria_update categoria)"
  shows "\<exists>updated.
           patch T s i categoria_update = (Inr updated, write_row categoria updated s) \<and>
           id_uuid updated = id_uuid categoria \<and>
           (\<forall>f. getattr updated f =
                  (case map_of (rev categoria_update) f of
                     Some v \<Rightarrow> Some v
                   | None \<Rightarrow> getattr categoria f)) \<and>
           fst (get (write_row categoria updated s) i) = Inr updated"
proof -
  let ?updated = "apply_update categoria_update categoria"
  have returned: "patch T s i categoria_update = (Inr ?updated, write_row categoria ?updated s)"
    using assms by (simp add: patch_def Let_def)
  have found: "find (\<lambda>r. id_uuid r = i) s = Some categoria"
    using assms(1) by (simp add: first_by_id)
  have "find (\<lambda>r. id_uuid r = i) (write_row categoria ?updated s) = Some ?updated"
    using found by (rule find_write_row) (simp add: apply_update_id)
  then have stored: "fst (get (write_row categoria ?updated s) i) = Inr ?updated"
    by (simp add: get_def first_by_id)
  from returned stored show ?thesis
    by (simp add: apply_update_id getattr_apply_update)
qed

theorem patch_is_partial_update_witness:
  "first (filter_by_id 7
      [\<lparr>nome = ''CT King'', extra = [(''endereco'', ''Rua X''), (''proprietario'', ''Marcos'')],
        id_uuid = 7\<rparr>])
     = Some \<lparr>nome = ''CT King'',
             extra = [(''endereco'', ''Rua X''), (''proprietario'', ''Marcos'')], id_uuid = 7\<rparr> \<and>
   (\<exists>updated.
      patch \<lparr>id_unique = True, nome_unique = True\<rparr>
        [\<lparr>nome = ''CT King'', extra = [(''endereco'', ''Rua X''), (''proprietario'', ''Marcos'')],
          id_uuid = 7\<rparr>] 7 [(Extra ''endereco'', ''Rua Y'')]
        = (Inr updated, [updated]) \<and>
      id_uuid updated = 7 \<and>
      getattr updated Nome = Some ''CT King'' \<and>
      getattr updated (Extra ''endereco'') = Some ''Rua Y'' \<and>
      getattr updated (Extra ''proprietario'') = Some ''Marcos'')"
proof -
  let ?r = "\<lparr>nome = ''CT King'', extra = [(''endereco'', ''Rua X''), (''proprietario'', ''Marcos'')],
             id_uuid = 7\<rparr>"
  let ?T = "\<lparr>id_unique = True, nome_unique = True\<rparr>"
  let ?p = "[(Extra ''endereco'', ''Rua Y'')]"
  have found: "first (filter_by_id 7 [?r]) = Some ?r"
    by (simp add: first_def filter_by_id_def)
  have accepted: "\<not> update_rejected ?T [?r] ?r (apply_update ?p ?r)"
    by (simp add: update_rejected_def apply_update_def)
  obtain updated where
    ret: "patch ?T [?r] 7 ?p = (Inr updated, write_row ?r updated [?r])" and
    ident: "id_uuid updated = id_uuid ?r" and
    fields: "\<forall>f. getattr updated f =
               (case map_of (rev ?p) f of Some v \<Rightarrow> Some v | None \<Rightarrow> getattr ?r f)"
    using patch_is_partial_update [OF found accepted] by blast
  from ret have "patch ?T [?r] 7 ?p = (Inr updated, [updated])" by simp
  moreover from ident have "id_uuid updated = 7" by simp
  moreover from spec [OF fields, of "Nome"] have "getattr updated Nome = Some ''CT King''" by simp
  moreover from spec [OF fields, of "Extra ''endereco''"] have "getattr updated (Extra ''endereco'') = Some ''Rua Y''" by simp
  moreover from spec [OF fields, of "Extra ''proprietario''"] have "getattr updated (Extra ''proprietario'') = Some ''Marcos''" by simp
  ultimately show ?thesis using found by blast
qed

lemma find_in_set: "find P s = Some x \<Longrightarrow> x \<in> set s"
  by (induction s) (auto split: if_splits)

lemma distinct_names_differ:
  "distinct (map nome s) \<Longrightarrow> x \<in> set s \<Longrightarrow> y \<in> set s \<Longrightarrow> x \<noteq> y \<Longrightarrow> nome x \<noteq> nome y"
  by (auto simp: distinct_map dest: inj_onD)

lemma patch_rejected_by_table:
  "nome_unique T \<Longrightarrow> first (filter_by_id i s) = Some categoria \<Longrightarrow>
   nome (apply_update categoria_update categoria) \<noteq> nome categoria \<Longrightarrow>
   nome (apply_update categoria_update categoria) \<in> set (map nome s) \<Longrightarrow>
     patch T s i categoria_update = (Inl IntegrityError, s)"
  by (simp add: patch_def Let_def update_rejected_def)

lemma patch_by_nome_rejected_by_table:
  "nome_unique T \<Longrightarrow> first (filter_by_nome n s) = Some categoria \<Longrightarrow>
   nome (apply_update categoria_update categoria) \<noteq> nome categoria \<Longrightarrow>
   nome (apply_update categoria_update categoria) \<in> set (map nome s) \<Longrightarrow>
     patch_by_nome T s n categoria_update = (Inl IntegrityError, s)"
  by (simp add: patch_by_nome_def Let_def update_rejected_def)

text \<open>
  Claim C3, as the code has it. Neither update has a uniqueness check of its own,
  and neither ever fails with \<open>Conflict\<close>. For a stored row and a payload whose
  \<open>nome\<close> is the \<open>nome\<close> of a different stored row, what the update does is what
  the commit does. On a table that declares \<open>nome\<close> unique, as the spec lays it
  out (its names being pairwise different), the commit is rejected: the update
  fails with the uncaught \<open>IntegrityError\<close> and the table is what it was. On a
  table without that constraint the update succeeds and returns the row under
  that \<open>nome\<close>.
\<close>

theorem patch_repeated_nome:
  "fst (patch T s i categoria_update) \<noteq> Inl Conflict \<and>
   fst (patch_by_nome T s n categoria_update) \<noteq> Inl Conflict \<and>
   (other \<in> set s \<and> map_of (rev categoria_update) Nome = Some (nome other) \<longrightarrow>
      (\<forall>categoria. first (filter_by_id i s) = Some categoria \<and> other \<noteq> categoria \<longrightarrow>
         (nome_unique T \<and> distinct (map nome s) \<longrightarrow>
            patch T s i categoria_update = (Inl IntegrityError, s)) \<and>
         (\<not> nome_unique T \<longrightarrow>
            (\<exists>updated. patch T s i categoria_update
                          = (Inr updated, write_row categoria updated s) \<and>
                        nome updated = nome other))) \<and>
      (\<forall>categoria. first (filter_by_nome n s) = Some categoria \<and> other \<noteq> categoria \<longrightarrow>
         (nome_unique T \<and> distinct (map nome s) \<longrightarrow>
            patch_by_nome T s n categoria_update = (Inl IntegrityError, s)) \<and>
         (\<not> nome_unique T \<longrightarrow>
            (\<exists>updated. patch_by_nome T s n categoria_update
                          = (Inr updated, write_row categoria updated s) \<and>
                        nome updated = nome other))))"
proof (intro conjI impI allI)
  show "fst (patch T s i categoria_update) \<noteq> Inl Conflict"
    by (simp add: patch_def Let_def split: option.split)
  show "fst (patch_by_nome T s n categoria_update) \<noteq> Inl Conflict"
    by (simp add: patch_by_nome_def Let_def split: option.split)
next
  fix categoria
  assume other: "other \<in> set s \<and> map_of (rev categoria_update) Nome = Some (nome other)"
    and found: "first (filter_by_id i s) = Some categoria \<and> other \<noteq> categoria"
    and table: "nome_unique T \<and> distinct (map nome s)"
  from found have "categoria \<in> set s"
    by (auto simp: first_by_id dest: find_in_set)
  with other found table have "nome other \<noteq> nome categoria"
    using distinct_names_differ [of s other categoria] by auto
  with other found table show "patch T s i categoria_update = (Inl IntegrityError, s)"
    by (simp add: patch_rejected_by_table nome_apply_update)
next
  fix categoria
  assume other: "other \<in> set s \<and> map_of (rev categoria_update) Nome = Some (nome other)"
    and found: "first (filter_by_id i s) = Some categoria \<and> other \<noteq> categoria"
    and table: "\<not> nome_unique T"
  then show "\<exists>updated. patch T s i categoria_update
                          = (Inr updated, write_row categoria updated s) \<and>
                        nome updated = nome other"
    by (simp add: patch_def Let_def update_rejected_def nome_apply_update)
next
  fix categoria
  assume other: "other \<in> set s \<and> map_of (rev categoria_update) Nome = Some (nome other)"
    and found: "first (filter_by_nome n s) = Some categoria \<and> other \<noteq> categoria"
    and table: "nome_unique T \<and> distinct (map nome s)"
  from found have "categoria \<in> set s"
    by (auto simp: first_by_nome dest: find_in_set)
  with other found table have "nome other \<noteq> nome categoria"
    using distinct_names_differ [of s other categoria] by auto
  with other found table show "patch_by_nome T s n categoria_update = (Inl IntegrityError, s)"
    by (simp add: patch_by_nome_rejected_by_table nome_apply_update)
next
  fix categoria
  assume other: "other \<in> set s \<and> map_of (rev categoria_update) Nome = Some (nome other)"
    and found: "first (filter_by_nome n s) = Some categoria \<and> other \<noteq> categoria"
    and table: "\<not> nome_unique T"
  then show "\<exists>updated. patch_by_nome T s n categoria_update
                          = (Inr updated, write_row categoria updated s) \<and>
                        nome updated = nome other"
    by (simp add: patch_by_nome_def Let_def update_rejected_def nome_apply_update)
qed

theorem patch_repeated_nome_witness:
  "patch \<lparr>id_unique = True, nome_unique = True\<rparr>
       [\<lparr>nome = ''Cardio'', extra = [], id_uuid = 1\<rparr>,
        \<lparr>nome = ''Forca'', extra = [], id_uuid = 2\<rparr>] 2 [(Nome, ''Cardio'')]
     = (Inl IntegrityError, [\<lparr>nome = ''Cardio'', extra = [], id_uuid = 1\<rparr>,
                             \<lparr>nome = ''Forca'', extra = [], id_uuid = 2\<rparr>]) \<and>
   patch_by_nome \<lparr>id_unique = True, nome_unique = True\<rparr>
       [\<lparr>nome = ''Cardio'', extra = [], id_uuid = 1\<rparr>,
        \<lparr>nome = ''Forca'', extra = [], id_uuid = 2\<rparr>] ''Forca'' [(Nome, ''Cardio'')]
     = (Inl IntegrityError, [\<lparr>nome = ''Cardio'', extra = [], id_uuid = 1\<rparr>,
                             \<lparr>nome = ''Forca'', extra = [], id_uuid = 2\<rparr>]) \<and>
   (\<exists>updated.
      patch \<lparr>id_unique = True, nome_unique = False\<rparr>
        [\<lparr>nome = ''Cardio'', extra = [], id_uuid = 1\<rparr>,
         \<lparr>nome = ''Forca'', extra = [], id_uuid = 2\<rparr>] 2 [(Nome, ''Cardio'')]
        = (Inr updated, [\<lparr>nome = ''Cardio'', extra = [], id_uuid = 1\<rparr>, updated]) \<and>
      nome updated = ''Cardio'') \<and>
   (\<exists>updated.
      patch_by_nome \<lparr>id_unique = True, nome_unique = False\<rparr>
        [\<lparr>nome = ''Cardio'', extra = [], id_uuid = 1\<rparr>,
         \<lparr>nome = ''Forca'', extra = [], id_uuid = 2\<rparr>] ''Forca'' [(Nome, ''Cardio'')]
        = (Inr updated, [\<lparr>nome = ''Cardio'', extra = [], id_uuid = 1\<rparr>, updated]) \<and>
      nome updated = ''Cardio'')"
proof -
  let ?a = "\<lparr>nome = ''Cardio'', extra = [], id_uuid = 1\<rparr>"
  let ?b = "\<lparr>nome = ''Forca'', extra = [], id_uuid = 2\<rparr>"
  have by_id: "first (filter_by_id 2 [?a, ?b]) = Some ?b"
    by (simp add: first_def filter_by_id_def)
  have by_nome: "first (filter_by_nome ''Forca'' [?a, ?b]) = Some ?b"
    by (simp add: first_def filter_by_nome_def)
  show ?thesis
    using patch_repeated_nome [of "\<lparr>id_unique = True, nome_unique = True\<rparr>" "[?a, ?b]" 2
        "[(Nome, ''Cardio'')]" "''Forca''" ?a]
      patch_repeated_nome [of "\<lparr>id_unique = True, nome_unique = False\<rparr>" "[?a, ?b]" 2
        "[(Nome, ''Cardio'')]" "''Forca''" ?a]
      by_id by_nome
    by simp
qed

text \<open>
  The claim as stated, that such an update succeeds, fails on the table of the
  spec. The table holds ``Cardio'' and ``Forca'' and declares \<open>nome\<close> unique;
  renaming the second row to ``Cardio'', by id or by name, returns no row: the
  commit raises, and the table keeps both rows as they were.
\<close>

theorem patch_repeated_nome_rejected:
  "first (filter_by_id 2 [\<lparr>nome = ''Cardio'', extra = [], id_uuid = 1\<rparr>,
                          \<lparr>nome = ''Forca'', extra = [], id_uuid = 2\<rparr>])
     = Some \<lparr>nome = ''Forca'', extra = [], id_uuid = 2\<rparr> \<and>
   first (filter_by_nome ''Forca'' [\<lparr>nome = ''Cardio'', extra = [], id_uuid = 1\<rparr>,
                                    \<lparr>nome = ''Forca'', extra = [], id_uuid = 2\<rparr>])
     = Some \<lparr>nome = ''Forca'', extra = [], id_uuid = 2\<rparr> \<and>
   patch \<lparr>id_unique = True, nome_unique = True\<rparr>
       [\<lparr>nome = ''Cardio'', extra = [], id_uuid = 1\<rparr>,
        \<lparr>nome = ''Forca'', extra = [], id_uuid = 2\<rparr>] 2 [(Nome, ''Cardio'')]
     = (Inl IntegrityError, [\<lparr>nome = ''Cardio'', extra = [], id_uuid = 1\<rparr>,
                             \<lparr>nome = ''Forca'', extra = [], id_uuid = 2\<rparr>]) \<and>
   patch_by_nome \<lparr>id_unique = True, nome_unique = True\<rparr>
       [\<lparr>nome = ''Cardio'', extra = [], id_uuid = 1\<rparr>,
        \<lparr>nome = ''Forca'', extra = [], id_uuid = 2\<rparr>] ''Forca'' [(Nome, ''Cardio'')]
     = (Inl IntegrityError, [\<lparr>nome = ''Cardio'', extra = [], id_uuid = 1\<rparr>,
                             \<lparr>nome = ''Forca'', extra = [], id_uuid = 2\<rparr>])"
  by (simp add: patch_def patch_by_nome_def first_def filter_by_id_def filter_by_nome_def
      apply_update_def update_rejected_def Let_def)

section \<open>The paginated listing\<close>

lemma query_paginated_any_limit_offset:
  "query_paginated paginate s limit offset = query_paginated paginate s limit' offset'"
  by (simp add: query_paginated_def)

text \<open>
  Claim C2, at its own example: twelve stored rows and \<open>limit = 5\<close>. Whatever
  \<^verbatim>\<open>paginate\<close> does with the object it is given, the endpoint has one and the
  same outcome for the offsets 0, 5 and 10, so it cannot return a page of 5 rows
  for the first and a page of 2 rows for the last.
\<close>

theorem query_paginated_same_page:
  "\<forall>paginate.
     fst (query_paginated paginate
            (map (\<lambda>k. \<lparr>nome = replicate k CHR ''a'', extra = [], id_uuid = of_nat k\<rparr>) [1..<13])
            5 0)
       = fst (query_paginated paginate
            (map (\<lambda>k. \<lparr>nome = replicate k CHR ''a'', extra = [], id_uuid = of_nat k\<rparr>) [1..<13])
            5 10) \<and>
     \<not> (\<exists>first_page third_page.
          fst (query_paginated paginate
            (map (\<lambda>k. \<lparr>nome = replicate k CHR ''a'', extra = [], id_uuid = of_nat k\<rparr>) [1..<13])
            5 0) = Inr first_page \<and>
          length (items first_page) = 5 \<and>
          fst (query_paginated paginate
            (map (\<lambda>k. \<lparr>nome = replicate k CHR ''a'', extra = [], id_uuid = of_nat k\<rparr>) [1..<13])
            5 10) = Inr third_page \<and>
          length (items third_page) = 2)"
proof (intro allI conjI)
  fix paginate :: "result \<Rightarrow> error + row page"
  let ?s = "map (\<lambda>k. \<lparr>nome = replicate k CHR ''a'', extra = [], id_uuid = of_nat k\<rparr>) [1..<13]"
  show same: "fst (query_paginated paginate ?s 5 0) = fst (query_paginated paginate ?s 5 10)"
    by (simp only: query_paginated_any_limit_offset [of paginate ?s 5 0 5 10])
  show "\<not> (\<exists>first_page third_page.
          fst (query_paginated paginate ?s 5 0) = Inr first_page \<and>
          length (items first_page) = 5 \<and>
          fst (query_paginated paginate ?s 5 10) = Inr third_page \<and>
          length (items third_page) = 2)"
    unfolding same by auto
qed

section \<open>Failures leave the table alone\<close>

text \<open>
  Claim C10. Whenever a request fails with \<open>NotFound\<close> or with \<open>Conflict\<close>, the
  table after the call is the table before it: each endpoint raises these two
  failures straight after its lookup, ahead of every write.
\<close>

theorem failure_leaves_table:
  assumes "fst (run paginate T s request) = Inl NotFound \<or>
           fst (run paginate T s request) = Inl Conflict"
  shows "snd (run paginate T s request) = s"
  using assms
  by (cases request)
    (auto simp: post_def query_def get_def get_by_nome_def query_paginated_def patch_def
      patch_by_nome_def delete_def delete_by_nome_def Let_def
      split: option.splits if_splits)

theorem failure_leaves_table_witness:
  "fst (run (\<lambda>categorias. Inl TypeError)
          \<lparr>id_unique = True, nome_unique = True\<rparr>
          [\<lparr>nome = ''Cardio'', extra = [], id_uuid = 1\<rparr>]
          (Create 2 \<lparr>nome = ''Cardio'', extra = []\<rparr>)) = Inl Conflict \<and>
   snd (run (\<lambda>categorias. Inl TypeError)
          \<lparr>id_unique = True, nome_unique = True\<rparr>
          [\<lparr>nome = ''Cardio'', extra = [], id_uuid = 1\<rparr>]
          (Create 2 \<lparr>nome = ''Cardio'', extra = []\<rparr>))
     = [\<lparr>nome = ''Cardio'', extra = [], id_uuid = 1\<rparr>] \<and>
   fst (run (\<lambda>categorias. Inl TypeError)
          \<lparr>id_unique = True, nome_unique = True\<rparr>
          [\<lparr>nome = ''Cardio'', extra = [], id_uuid = 1\<rparr>] (DeleteById 3)) = Inl NotFound \<and>
   snd (run (\<lambda>categorias. Inl TypeError)
          \<lparr>id_unique = True, nome_unique = True\<rparr>
          [\<lparr>nome = ''Cardio'', extra = [], id_uuid = 1\<rparr>] (DeleteById 3))
     = [\<lparr>nome = ''Cardio'', extra = [], id_uuid = 1\<rparr>]"
proof -
  let ?pg = "\<lambda>categorias :: result. Inl TypeError :: error + row page"
  let ?T = "\<lparr>id_unique = True, nome_unique = True\<rparr>"
  let ?s = "[\<lparr>nome = ''Cardio'', extra = [], id_uuid = 1\<rparr>]"
  have c: "fst (run ?pg ?T ?s (Create 2 \<lparr>nome = ''Cardio'', extra = []\<rparr>)) = Inl Conflict"
    by (simp add: post_def first_def filter_by_nome_def)
  have d: "fst (run ?pg ?T ?s (DeleteById 3)) = Inl NotFound"
    by (simp add: delete_def first_def filter_by_id_def)
  from c d failure_leaves_table [of ?pg ?T ?s "Create 2 \<lparr>nome = ''Cardio'', extra = []\<rparr>"]
    failure_leaves_table [of ?pg ?T ?s "DeleteById 3"]
  show ?thesis by blast
qed

section \<open>Uniqueness of \<open>nome\<close>\<close>

lemma write_row_absent: "old \<notin> set s \<Longrightarrow> write_row old new s = s"
  by (induction s) auto

lemma write_row_names:
  "set (map nome (write_row old new s)) \<subseteq> insert (nome new) (set (map nome s))"
  by (induction s) auto

lemma write_row_names_distinct:
  assumes "distinct (map nome s)"
    and "nome new = nome old \<or> nome new \<notin> set (map nome s)"
  shows "distinct (map nome (write_row old new s))"
  using assms
proof (induction s)
  case Nil
  then show ?case by simp
next
  case (Cons r s)
  show ?case
  proof (cases "r = old")
    case True
    with Cons.prems show ?thesis by auto
  next
    case False
    have rest: "distinct (map nome (write_row old new s))"
      using Cons by auto
    have "nome r \<notin> set (map nome (write_row old new s))"
    proof (cases "old \<in> set s")
      case True
      with Cons.prems(1) have "nome old \<noteq> nome r" by (auto simp: image_iff)
      with Cons.prems have "nome new \<noteq> nome r" by auto
      with Cons.prems(1) write_row_names [of old new s] show ?thesis by auto
    next
      case False
      with Cons.prems(1) show ?thesis by (simp add: write_row_absent)
    qed
    with rest False show ?thesis by simp
  qed
qed

lemma remove1_names_distinct:
  "distinct (map nome s) \<Longrightarrow> distinct (map nome (remove1 x s))"
proof (induction s)
  case Nil
  then show ?case by simp
next
  case (Cons r s)
  have "set (remove1 x s) \<subseteq> set s" by (rule set_remove1_subset)
  with Cons show ?case by auto
qed

text \<open>
  What holds of the invariant: every request other than the two updates keeps the
  names pairwise different, and so do the updates on a table that declares
  \<open>nome\<close> unique, where the commit of a repeated name is rejected.
\<close>

lemma run_keeps_names_distinct:
  assumes "distinct (map nome s)"
    and "nome_unique T \<or>
         ((\<forall>i u. request \<noteq> UpdateById i u) \<and> (\<forall>n u. request \<noteq> UpdateByName n u))"
  shows "distinct (map nome (snd (run paginate T s request)))"
proof (cases request)
  case (Create u categoria_in)
  show ?thesis
  proof (cases "find (\<lambda>r. nome r = nome categoria_in) s")
    case None
    then have "nome categoria_in \<notin> set (map nome s)" by (simp add: find_by_nome_None)
    with None assms(1) Create show ?thesis
      by (simp add: post_def first_by_nome Let_def)
  next
    case (Some r)
    with assms(1) Create show ?thesis by (simp add: post_def first_by_nome)
  qed
next
  case (UpdateById i u)
  with assms(2) have uniq: "nome_unique T" by simp
  show ?thesis
    using assms(1) uniq UpdateById
    by (auto simp: patch_def Let_def update_rejected_def
        intro!: write_row_names_distinct split: option.splits)
next
  case (UpdateByName n u)
  with assms(2) have uniq: "nome_unique T" by simp
  show ?thesis
    using assms(1) uniq UpdateByName
    by (auto simp: patch_by_nome_def Let_def update_rejected_def
        intro!: write_row_names_distinct split: option.splits)
qed (use assms(1) in \<open>auto simp: query_def get_def get_by_nome_def query_paginated_def
      delete_def delete_by_nome_def delete_row_def remove1_names_distinct
      split: option.splits\<close>)

text \<open>
  Claim C1. On the table as the spec lays it out, with \<open>nome\<close> declared unique:
  from a table whose names are pairwise different, every request of the service
  leaves a table whose names are pairwise different. \<open>post\<close> looks the name up
  before it inserts; the updates have no such lookup, and it is the commit that
  refuses a repeated name.
\<close>

theorem run_keeps_nome_unique:
  assumes "distinct (map nome s)" and "nome_unique T"
  shows "distinct (map nome (snd (run paginate T s request)))"
  using assms by (simp add: run_keeps_names_distinct)

theorem run_keeps_nome_unique_witness:
  "distinct (map nome [\<lparr>nome = ''Cardio'', extra = [], id_uuid = 1\<rparr>,
                       \<lparr>nome = ''Forca'', extra = [], id_uuid = 2\<rparr>]) \<and>
   nome_unique \<lparr>id_unique = True, nome_unique = True\<rparr> \<and>
   distinct (map nome (snd (run (\<lambda>categorias. Inl TypeError)
       \<lparr>id_unique = True, nome_unique = True\<rparr>
       [\<lparr>nome = ''Cardio'', extra = [], id_uuid = 1\<rparr>,
        \<lparr>nome = ''Forca'', extra = [], id_uuid = 2\<rparr>] (UpdateById 2 [(Nome, ''Cardio'')])))) \<and>
   distinct (map nome (snd (run (\<lambda>categorias. Inl TypeError)
       \<lparr>id_unique = True, nome_unique = True\<rparr>
       [\<lparr>nome = ''Cardio'', extra = [], id_uuid = 1\<rparr>,
        \<lparr>nome = ''Forca'', extra = [], id_uuid = 2\<rparr>]
       (Create 3 \<lparr>nome = ''Pernas'', extra = []\<rparr>))))"
proof -
  let ?s = "[\<lparr>nome = ''Cardio'', extra = [], id_uuid = 1\<rparr>,
             \<lparr>nome = ''Forca'', extra = [], id_uuid = 2\<rparr>]"
  let ?T = "\<lparr>id_unique = True, nome_unique = True\<rparr>"
  let ?pg = "\<lambda>categorias :: result. Inl TypeError :: error + row page"
  have d: "distinct (map nome ?s)" by simp
  have u: "nome_unique ?T" by simp
  from d u run_keeps_nome_unique [OF d u, of ?pg "UpdateById 2 [(Nome, ''Cardio'')]"]
    run_keeps_nome_unique [OF d u, of ?pg "Create 3 \<lparr>nome = ''Pernas'', extra = []\<rparr>"]
  show ?thesis by blast
qed

end
